theory Spec2Isabelle
  imports Main "HOL-Library.Word" "HOL-Library.Signed_Division"
begin

unbundle bit_operations_syntax

section \<open>Machine integers of the firmware\<close>

text \<open>
  The target is a 32-bit ARM core (nRF52840): \<open>int\<close> is a 32-bit two's complement
  value, \<open>uint8_t\<close> and \<open>uint16_t\<close> are 8 and 16 bit unsigned values. A word is read
  unsigned by \<open>uint\<close>/\<open>unat\<close> and signed by \<open>sint\<close>; \<open>\<le>s\<close> is the signed comparison,
  \<open>\<le>\<close> the unsigned one.
\<close>

type_synonym u8 = "8 word"
type_synonym u16 = "16 word"
type_synonym i32 = "32 word"

definition c_div :: "i32 \<Rightarrow> i32 \<Rightarrow> i32" where
  \<comment> \<open>C's \<open>/\<close> on \<open>int\<close>: the quotient truncated toward zero (\<open>sdiv\<close> on the signed values).\<close>
  "c_div a b = word_of_int (sint a sdiv sint b)"

section \<open>battery.c: the discharge curve\<close>

text \<open>
  \<open>uint8_t battery_mv_to_pct(int mv)\<close>. Subtraction and multiplication are the
  32-bit machine operations, the comparisons are signed, and the \<open>int\<close> result of each
  branch is narrowed to \<open>uint8_t\<close> by the \<open>return\<close>.
\<close>

definition battery_mv_to_pct :: "i32 \<Rightarrow> u8" where
  "battery_mv_to_pct mv =
     (if 4200 \<le>s mv then 100
      else if 4100 \<le>s mv then ucast (90 + c_div ((mv - 4100) * 10) 100)
      else if 3800 \<le>s mv then ucast (50 + c_div ((mv - 3800) * 40) 300)
      else if 3600 \<le>s mv then ucast (20 + c_div ((mv - 3600) * 30) 200)
      else if 3300 \<le>s mv then ucast (c_div ((mv - 3300) * 20) 300)
      else 0)"

text \<open>
  The table of the specification (section 4.2), written from its words over the
  mathematical integers, with the truncating division \<open>sdiv\<close>.
\<close>

definition voltage_to_percent :: "int \<Rightarrow> int" where
  "voltage_to_percent mv =
     (if 4200 \<le> mv then 100
      else if 4100 \<le> mv \<and> mv < 4200 then 90 + ((mv - 4100) * 10) sdiv 100
      else if 3800 \<le> mv \<and> mv < 4100 then 50 + ((mv - 3800) * 40) sdiv 300
      else if 3600 \<le> mv \<and> mv < 3800 then 20 + ((mv - 3600) * 30) sdiv 200
      else if 3300 \<le> mv \<and> mv < 3600 then ((mv - 3300) * 20) sdiv 300
      else 0)"

section \<open>range_service.h: the configuration record\<close>

text \<open>
  \<open>struct range_config\<close>, four \<open>uint16_t\<close> fields in declaration order. The struct is
  \<open>__packed\<close>, so its memory image is 8 bytes with no padding.
\<close>

record range_config =
  sample_interval_ms :: u16
  notify_interval_ms :: u16
  max_range_mm :: u16
  min_range_mm :: u16

definition sizeof_range_config :: nat where
  "sizeof_range_config = 8"

text \<open>
  The memory image of the struct on the little-endian target: each field is its low
  byte followed by its high byte. \<open>config_of_bytes\<close> is what the handler's cast
  \<open>const struct range_config *new_config = buf\<close> reads from the first 8 bytes of \<open>buf\<close>;
  \<open>bytes_of_config\<close> is the image a peer sends to write a record.
\<close>

definition le16 :: "u8 \<Rightarrow> u8 \<Rightarrow> u16" where
  "le16 lo hi = ucast lo OR push_bit 8 (ucast hi)"

definition bytes_of_u16 :: "u16 \<Rightarrow> u8 list" where
  "bytes_of_u16 w = [ucast w, ucast (drop_bit 8 w)]"

definition config_of_bytes :: "u8 list \<Rightarrow> range_config" where
  "config_of_bytes buf =
     \<lparr> sample_interval_ms = le16 (buf ! 0) (buf ! 1),
       notify_interval_ms = le16 (buf ! 2) (buf ! 3),
       max_range_mm = le16 (buf ! 4) (buf ! 5),
       min_range_mm = le16 (buf ! 6) (buf ! 7) \<rparr>"

definition bytes_of_config :: "range_config \<Rightarrow> u8 list" where
  "bytes_of_config c =
     bytes_of_u16 (sample_interval_ms c) @ bytes_of_u16 (notify_interval_ms c) @
     bytes_of_u16 (max_range_mm c) @ bytes_of_u16 (min_range_mm c)"

section \<open>The program variables and the calls made to collaborators\<close>

text \<open>
  The file-scope variables of \<open>range_service.c\<close> (\<open>current_range_mm\<close>,
  \<open>active_config\<close>, \<open>range_notify_enabled\<close>) and of \<open>main.c\<close> (\<open>current_conn\<close>, a
  pointer that is \<open>NULL\<close> or a connection object). Every function below takes the
  variables and returns them updated, next to the list of calls it made to the
  Bluetooth stack, the sensor driver, the kernel and the logger, in program order.
  Return codes of those collaborators are inputs of the functions.
\<close>

type_synonym conn = nat

record globals =
  current_range_mm :: u16
  active_config :: range_config
  range_notify_enabled :: bool
  current_conn :: "conn option"

datatype log_level = LOG_ERR | LOG_WRN | LOG_INF

datatype log_arg = Num int | Str string

datatype event =
    Log log_level string "log_arg list"
  | Bt_gatt_notify u16
  | Bt_le_adv_start
  | Bt_conn_ref conn
  | Bt_conn_unref conn
  | Sensor_sample_fetch
  | Sensor_channel_get
  | K_msleep u16

text \<open>
  The initial values: \<open>current_range_mm\<close>, \<open>range_notify_enabled\<close> and
  \<open>current_conn\<close> are zero-initialised statics; \<open>active_config\<close> has its initialiser.
  \<open>CONFIG_RANGE_SAMPLE_INTERVAL_MS\<close> and \<open>CONFIG_RANGE_NOTIFY_INTERVAL_MS\<close> come
  from the build configuration and are parameters here.
\<close>

definition initial_globals :: "u16 \<Rightarrow> u16 \<Rightarrow> globals" where
  "initial_globals CONFIG_RANGE_SAMPLE_INTERVAL_MS CONFIG_RANGE_NOTIFY_INTERVAL_MS =
     \<lparr> current_range_mm = 0,
       active_config =
         \<lparr> sample_interval_ms = CONFIG_RANGE_SAMPLE_INTERVAL_MS,
           notify_interval_ms = CONFIG_RANGE_NOTIFY_INTERVAL_MS,
           max_range_mm = 1200,
           min_range_mm = 30 \<rparr>,
       range_notify_enabled = False,
       current_conn = None \<rparr>"

section \<open>range_service.c\<close>

text \<open>
  The attribute protocol error codes the write handler returns through
  \<open>BT_GATT_ERR\<close>; a handler's \<open>ssize_t\<close> result is such an error (\<open>Inl\<close>) or the
  number of bytes written (\<open>Inr\<close>).
\<close>

datatype att_err =
    BT_ATT_ERR_INVALID_OFFSET
  | BT_ATT_ERR_INVALID_ATTRIBUTE_LEN
  | BT_ATT_ERR_VALUE_NOT_ALLOWED

definition BT_GATT_CCC_NOTIFY :: u16 where
  \<comment> \<open>the notification bit of a client characteristic configuration value\<close>
  "BT_GATT_CCC_NOTIFY = 1"

definition range_ccc_changed :: "globals \<Rightarrow> u16 \<Rightarrow> globals \<times> event list" where
  "range_ccc_changed g v =
     (let g' = g\<lparr>range_notify_enabled := (v = BT_GATT_CCC_NOTIFY)\<rparr>
      in (g', [Log LOG_INF ''Range notifications %s''
                 [Str (if range_notify_enabled g' then ''enabled'' else ''disabled'')]]))"

text \<open>
  \<open>write_config(conn, attr, buf, len, offset, flags)\<close>; \<open>conn\<close> and \<open>attr\<close> are not
  used by the handler and are left out. \<open>offset + len\<close> is computed on the promoted
  operands and cannot wrap.
\<close>

definition write_config ::
  "globals \<Rightarrow> u8 list \<Rightarrow> u16 \<Rightarrow> u16 \<Rightarrow> u8 \<Rightarrow> (att_err + u16) \<times> globals \<times> event list" where
  "write_config g buf len offset flags =
     (if unat offset + unat len > sizeof_range_config then
        (Inl BT_ATT_ERR_INVALID_OFFSET, g, [])
      else if unat len \<noteq> sizeof_range_config then
        (Inl BT_ATT_ERR_INVALID_ATTRIBUTE_LEN, g, [])
      else
        let new_config = config_of_bytes buf in
        if sample_interval_ms new_config < 10 \<or> sample_interval_ms new_config > 5000 then
          (Inl BT_ATT_ERR_VALUE_NOT_ALLOWED, g,
           [Log LOG_WRN ''Rejected config: sample_interval_ms=%u out of range''
              [Num (uint (sample_interval_ms new_config))]])
        else if notify_interval_ms new_config < 10 \<or> notify_interval_ms new_config > 5000 then
          (Inl BT_ATT_ERR_VALUE_NOT_ALLOWED, g,
           [Log LOG_WRN ''Rejected config: notify_interval_ms=%u out of range''
              [Num (uint (notify_interval_ms new_config))]])
        else if min_range_mm new_config \<ge> max_range_mm new_config then
          (Inl BT_ATT_ERR_VALUE_NOT_ALLOWED, g,
           [Log LOG_WRN ''Rejected config: min_range >= max_range'' []])
        else
          let g' = g\<lparr>active_config := new_config\<rparr> in
          (Inr len, g',
           [Log LOG_INF ''Config updated: sample=%ums notify=%ums range=[%u-%u]mm''
              [Num (uint (sample_interval_ms (active_config g'))),
               Num (uint (notify_interval_ms (active_config g'))),
               Num (uint (min_range_mm (active_config g'))),
               Num (uint (max_range_mm (active_config g')))]]))"

text \<open>
  \<open>range_service_update(distance_mm)\<close>; \<open>notify_ret\<close> is what \<open>bt_gatt_notify\<close>
  answers when it is called. The notification carries the value of
  \<open>current_range_mm\<close>.
\<close>

definition range_service_update :: "globals \<Rightarrow> u16 \<Rightarrow> i32 \<Rightarrow> i32 \<times> globals \<times> event list" where
  "range_service_update g distance_mm notify_ret =
     (let g' = g\<lparr>current_range_mm := distance_mm\<rparr> in
      if \<not> range_notify_enabled g' then (0, g', [])
      else (notify_ret, g', [Bt_gatt_notify (current_range_mm g')]))"

definition range_service_get_config :: "globals \<Rightarrow> range_config" where
  \<comment> \<open>the record the returned pointer designates\<close>
  "range_service_get_config g = active_config g"

section \<open>main.c\<close>

text \<open>
  \<open>connected(conn, err)\<close>; \<open>ref\<close> is what \<open>bt_conn_ref(conn)\<close> returns.
\<close>

definition connected :: "globals \<Rightarrow> conn \<Rightarrow> u8 \<Rightarrow> conn option \<Rightarrow> globals \<times> event list" where
  "connected g c err ref =
     (if err \<noteq> 0 then (g, [Log LOG_ERR ''Connection failed (err %u)'' [Num (uint err)]])
      else (g\<lparr>current_conn := ref\<rparr>, [Log LOG_INF ''Connected'' [], Bt_conn_ref c]))"

text \<open>
  \<open>disconnected(conn, reason)\<close>; \<open>adv_err\<close> is what \<open>bt_le_adv_start\<close> returns.
\<close>

definition disconnected :: "globals \<Rightarrow> conn \<Rightarrow> u8 \<Rightarrow> i32 \<Rightarrow> globals \<times> event list" where
  "disconnected g c reason adv_err =
     (let ev0 = [Log LOG_INF ''Disconnected (reason %u)'' [Num (uint reason)]];
          (g1, ev1) = (case current_conn g of
                         Some cc \<Rightarrow> (g\<lparr>current_conn := None\<rparr>, [Bt_conn_unref cc])
                       | None \<Rightarrow> (g, []));
          ev2 = [Bt_le_adv_start];
          ev3 = (if adv_err \<noteq> 0
                 then [Log LOG_ERR ''Advertising restart failed (err %d)'' [Num (sint adv_err)]]
                 else [])
      in (g1, ev0 @ ev1 @ ev2 @ ev3))"

text \<open>
  What the sensor driver answers on one poll: the return codes of
  \<open>sensor_sample_fetch\<close> and \<open>sensor_channel_get\<close>, and the \<open>struct sensor_value\<close>
  the latter fills in (whole metres and millionths of a metre). \<open>read_range_mm\<close>
  returns a negative code when a call fails and \<open>val1 * 1000 + val2 / 1000\<close>
  otherwise, computed as the machine does (C leaves an overflowing signed product
  undefined; the model wraps it).
\<close>

record sensor_answer =
  fetch_ret :: i32
  get_ret :: i32
  val1 :: i32
  val2 :: i32

definition read_range_mm :: "sensor_answer \<Rightarrow> i32 \<times> event list" where
  "read_range_mm a =
     (if fetch_ret a <s 0 then
        (fetch_ret a,
         [Sensor_sample_fetch, Log LOG_WRN ''Sensor fetch failed: %d'' [Num (sint (fetch_ret a))]])
      else if get_ret a <s 0 then
        (get_ret a,
         [Sensor_sample_fetch, Sensor_channel_get,
          Log LOG_WRN ''Sensor channel get failed: %d'' [Num (sint (get_ret a))]])
      else
        (val1 a * 1000 + c_div (val2 a) 1000, [Sensor_sample_fetch, Sensor_channel_get]))"

text \<open>
  The clamp of \<open>sensor_thread_fn\<close>: the narrowing cast of the \<open>int\<close> distance, then
  the two comparisons against the configuration, in the order of the source.
\<close>

definition clamp_distance :: "range_config \<Rightarrow> i32 \<Rightarrow> u16" where
  "clamp_distance cfg distance =
     (let clamped = (ucast distance :: u16);
          clamped = (if clamped < min_range_mm cfg then min_range_mm cfg else clamped);
          clamped = (if clamped > max_range_mm cfg then max_range_mm cfg else clamped)
      in clamped)"

text \<open>
  One pass through the body of the \<open>while (1)\<close> of \<open>sensor_thread_fn\<close>, given the
  driver's answer and the answer \<open>bt_gatt_notify\<close> would give. \<open>cfg\<close> is a pointer
  to \<open>active_config\<close>, so each \<open>cfg->field\<close> reads the variable as it is then.
\<close>

definition sensor_tick :: "globals \<Rightarrow> sensor_answer \<Rightarrow> i32 \<Rightarrow> globals \<times> event list" where
  "sensor_tick g a notify_ret =
     (let (distance, ev1) = read_range_mm a in
      if 0 \<le>s distance then
        let clamped = clamp_distance (range_service_get_config g) distance;
            (r, g', ev2) = range_service_update g clamped notify_ret
        in (g', ev1 @ ev2 @ [K_msleep (sample_interval_ms (range_service_get_config g'))])
      else (g, ev1 @ [K_msleep (sample_interval_ms (range_service_get_config g))]))"

text \<open>
  The thread never returns. \<open>sensor_loop\<close> is the part of its run that consumes a
  given list of answers, one per pass; \<open>sensor_thread_fn\<close> adds the start-up log line.
\<close>

fun sensor_loop :: "globals \<Rightarrow> (sensor_answer \<times> i32) list \<Rightarrow> globals \<times> event list" where
  "sensor_loop g [] = (g, [])"
| "sensor_loop g ((a, notify_ret) # rest) =
     (let (g', ev) = sensor_tick g a notify_ret;
          (g'', evs) = sensor_loop g' rest
      in (g'', ev @ evs))"

definition sensor_thread_fn :: "globals \<Rightarrow> (sensor_answer \<times> i32) list \<Rightarrow> globals \<times> event list" where
  "sensor_thread_fn g answers =
     (let (g', evs) = sensor_loop g answers
      in (g', Log LOG_INF ''Sensor thread started'' [] # evs))"

section \<open>The configuration rules in the specification's words\<close>

text \<open>
  Section 3 of the specification: the invariants of a configuration record, and
  section 4.1: the order in which a candidate is validated, with the reason reported
  on the first violation.
\<close>

definition config_valid :: "range_config \<Rightarrow> bool" where
  "config_valid c \<longleftrightarrow>
     10 \<le> sample_interval_ms c \<and> sample_interval_ms c \<le> 5000 \<and>
     10 \<le> notify_interval_ms c \<and> notify_interval_ms c \<le> 5000 \<and>
     min_range_mm c < max_range_mm c"

datatype config_error =
    SampleIntervalOutOfRange
  | NotifyIntervalOutOfRange
  | RangeBoundsInverted

definition first_violation :: "range_config \<Rightarrow> config_error option" where
  "first_violation c =
     (if \<not> (10 \<le> sample_interval_ms c \<and> sample_interval_ms c \<le> 5000)
        then Some SampleIntervalOutOfRange
      else if \<not> (10 \<le> notify_interval_ms c \<and> notify_interval_ms c \<le> 5000)
        then Some NotifyIntervalOutOfRange
      else if \<not> (min_range_mm c < max_range_mm c)
        then Some RangeBoundsInverted
      else None)"

text \<open>The warning \<open>write_config\<close> logs for each rule; the rule shows nowhere else.\<close>

fun rejection_log :: "config_error \<Rightarrow> range_config \<Rightarrow> event" where
  "rejection_log SampleIntervalOutOfRange c =
     Log LOG_WRN ''Rejected config: sample_interval_ms=%u out of range''
       [Num (uint (sample_interval_ms c))]"
| "rejection_log NotifyIntervalOutOfRange c =
     Log LOG_WRN ''Rejected config: notify_interval_ms=%u out of range''
       [Num (uint (notify_interval_ms c))]"
| "rejection_log RangeBoundsInverted c =
     Log LOG_WRN ''Rejected config: min_range >= max_range'' []"

section \<open>Reading the calls\<close>

fun notifications :: "event list \<Rightarrow> u16 list" where
  "notifications [] = []"
| "notifications (Bt_gatt_notify v # es) = v # notifications es"
| "notifications (e # es) = notifications es"

fun released :: "event list \<Rightarrow> conn list" where
  "released [] = []"
| "released (Bt_conn_unref c # es) = c # released es"
| "released (e # es) = released es"

text \<open>
  The values the sensor loop accepts from a list of answers under a configuration:
  the clamped distance of each pass whose read did not fail, in order.
\<close>

definition accepted :: "range_config \<Rightarrow> (sensor_answer \<times> i32) list \<Rightarrow> u16 list" where
  "accepted cfg answers =
     map (\<lambda>(a, notify_ret). clamp_distance cfg (fst (read_range_mm a)))
       (filter (\<lambda>(a, notify_ret). 0 \<le>s fst (read_range_mm a)) answers)"

section \<open>The discharge curve: arithmetic facts\<close>

lemma sdiv_nonneg: "0 \<le> a \<Longrightarrow> 0 < b \<Longrightarrow> a sdiv b = a div (b::int)"
  by (simp add: signed_divide_int_def sgn_if)

lemma sint_small:
  "- 2147483648 \<le> k \<Longrightarrow> k < 2147483648 \<Longrightarrow> sint (word_of_int k :: i32) = k"
  by (simp add: sint_sbintrunc' signed_take_bit_int_eq_self)

lemma narrow_u8: "0 \<le> r \<Longrightarrow> r < 256 \<Longrightarrow> uint (ucast (word_of_int r :: i32) :: u8) = r"
  by (simp add: unsigned_ucast_eq take_bit_int_eq_self unsigned_of_int)

text \<open>
  One interpolating branch, computed on the machine: inside its voltage window neither
  the subtraction nor the multiplication overflows, the quotient is that of the
  integers, and the narrowing to \<open>uint8_t\<close> loses nothing.
\<close>

lemma segment:
  fixes mv :: i32
  assumes lo: "lo \<le> sint mv" and hi: "sint mv < lo + w"
    and w: "w \<le> 300" and k: "0 < k" "k \<le> 40" and d: "0 < d" "d \<le> 300"
    and t: "w * k \<le> qmax * d" and b: "0 \<le> base" "base + qmax \<le> 255"
  shows "uint (ucast (word_of_int base
              + c_div ((mv - word_of_int lo) * word_of_int k) (word_of_int d)) :: u8)
         = base + ((sint mv - lo) * k) sdiv d"
proof -
  define m where "m = sint mv"
  have mv: "mv = word_of_int m" by (simp add: m_def)
  have x0: "0 \<le> (m - lo) * k" using lo k by (simp add: m_def)
  have x1: "(m - lo) * k \<le> w * k"
    using hi k by (intro mult_right_mono) (auto simp: m_def)
  have x2: "w * k \<le> 300 * 40"
    using w k x0 x1 by (intro mult_mono) auto
  have sx: "sint ((mv - word_of_int lo) * word_of_int k) = (m - lo) * k"
  proof -
    have e: "(mv - word_of_int lo) * word_of_int k = (word_of_int ((m - lo) * k) :: i32)"
      by (simp add: mv)
    show ?thesis unfolding e using x0 x1 x2 by (intro sint_small) auto
  qed
  have sd: "sint (word_of_int d :: i32) = d"
    using d by (intro sint_small) auto
  have q0: "0 \<le> ((m - lo) * k) div d"
    using x0 d by (simp add: pos_imp_zdiv_nonneg_iff)
  have q1: "((m - lo) * k) div d \<le> qmax"
  proof -
    have "((m - lo) * k) div d \<le> (qmax * d) div d"
      using x1 t d by (intro zdiv_mono1) auto
    then show ?thesis using d by simp
  qed
  have cd: "c_div ((mv - word_of_int lo) * word_of_int k) (word_of_int d)
            = word_of_int (((m - lo) * k) div d)"
    using x0 d by (simp add: c_div_def sx sd sdiv_nonneg)
  define r where "r = base + ((m - lo) * k) div d"
  have r: "0 \<le> r" "r < 256"
    using q0 q1 b by (auto simp: r_def)
  have "word_of_int base + c_div ((mv - word_of_int lo) * word_of_int k) (word_of_int d)
        = (word_of_int r :: i32)"
    by (simp add: cd r_def)
  moreover have "uint (ucast (word_of_int r :: i32) :: u8) = r"
    using r by (rule narrow_u8)
  ultimately show ?thesis
    using x0 d by (simp add: sdiv_nonneg m_def r_def)
qed

lemma battery_mv_to_pct_uint: "uint (battery_mv_to_pct mv) = voltage_to_percent (sint mv)"
proof -
  consider (s0) "sint mv < 3300" | (s1) "3300 \<le> sint mv" "sint mv < 3600"
    | (s2) "3600 \<le> sint mv" "sint mv < 3800" | (s3) "3800 \<le> sint mv" "sint mv < 4100"
    | (s4) "4100 \<le> sint mv" "sint mv < 4200" | (s5) "4200 \<le> sint mv"
    by linarith
  then show ?thesis
  proof cases
    case s0
    then show ?thesis
      by (simp add: battery_mv_to_pct_def voltage_to_percent_def word_sle_eq)
  next
    case s1
    then show ?thesis
      using segment [of 3300 mv 300 20 300 20 0]
      by (simp add: battery_mv_to_pct_def voltage_to_percent_def word_sle_eq)
  next
    case s2
    then show ?thesis
      using segment [of 3600 mv 200 30 200 30 20]
      by (simp add: battery_mv_to_pct_def voltage_to_percent_def word_sle_eq)
  next
    case s3
    then show ?thesis
      using segment [of 3800 mv 300 40 300 40 50]
      by (simp add: battery_mv_to_pct_def voltage_to_percent_def word_sle_eq)
  next
    case s4
    then show ?thesis
      using segment [of 4100 mv 100 10 100 10 90]
      by (simp add: battery_mv_to_pct_def voltage_to_percent_def word_sle_eq)
  next
    case s5
    then show ?thesis
      by (simp add: battery_mv_to_pct_def voltage_to_percent_def word_sle_eq)
  qed
qed

text \<open>The table of the specification with the ordinary quotient: no dividend is negative.\<close>

lemma voltage_to_percent_div:
  "voltage_to_percent mv =
     (if 4200 \<le> mv then 100
      else if 4100 \<le> mv then 90 + ((mv - 4100) * 10) div 100
      else if 3800 \<le> mv then 50 + ((mv - 3800) * 40) div 300
      else if 3600 \<le> mv then 20 + ((mv - 3600) * 30) div 200
      else if 3300 \<le> mv then ((mv - 3300) * 20) div 300
      else 0)"
  by (simp add: voltage_to_percent_def sdiv_nonneg)

lemma quot_lower: "0 \<le> x \<Longrightarrow> 0 \<le> k \<Longrightarrow> 0 < d \<Longrightarrow> 0 \<le> (x * k) div (d::int)"
  by (simp add: pos_imp_zdiv_nonneg_iff)

lemma quot_mono:
  "x \<le> y \<Longrightarrow> 0 \<le> k \<Longrightarrow> 0 < d \<Longrightarrow> (x * k) div d \<le> (y * k) div (d::int)"
  by (intro zdiv_mono1 mult_right_mono)

lemma quot_upper:
  assumes "x \<le> w" "0 \<le> k" "0 < d" "w * k = q * (d::int)"
  shows "(x * k) div d \<le> q"
proof -
  have "(x * k) div d \<le> (w * k) div d"
    using assms by (intro quot_mono)
  then show ?thesis using assms by simp
qed

lemma seg1:
  "3300 \<le> m \<Longrightarrow> m < 3600 \<Longrightarrow>
   0 \<le> ((m - 3300) * 20) div 300 \<and> ((m - 3300) * 20) div 300 \<le> (20::int)"
  using quot_lower [of "m - 3300" 20 300] quot_upper [of "m - 3300" 300 20 300 20] by simp

lemma seg2:
  "3600 \<le> m \<Longrightarrow> m < 3800 \<Longrightarrow>
   0 \<le> ((m - 3600) * 30) div 200 \<and> ((m - 3600) * 30) div 200 \<le> (30::int)"
  using quot_lower [of "m - 3600" 30 200] quot_upper [of "m - 3600" 200 30 200 30] by simp

lemma seg3:
  "3800 \<le> m \<Longrightarrow> m < 4100 \<Longrightarrow>
   0 \<le> ((m - 3800) * 40) div 300 \<and> ((m - 3800) * 40) div 300 \<le> (40::int)"
  using quot_lower [of "m - 3800" 40 300] quot_upper [of "m - 3800" 300 40 300 40] by simp

lemma seg4:
  "4100 \<le> m \<Longrightarrow> m < 4200 \<Longrightarrow>
   0 \<le> ((m - 4100) * 10) div 100 \<and> ((m - 4100) * 10) div 100 \<le> (10::int)"
  using quot_lower [of "m - 4100" 10 100] quot_upper [of "m - 4100" 100 10 100 10] by simp

lemma vp_ge0: "0 \<le> voltage_to_percent m"
  using seg1 [of m] seg2 [of m] seg3 [of m] seg4 [of m]
  by (auto simp: voltage_to_percent_div)

lemma vp_le100: "voltage_to_percent m \<le> 100"
  using seg1 [of m] seg2 [of m] seg3 [of m] seg4 [of m]
  by (auto simp: voltage_to_percent_div)

lemma vp_from_3600: "3600 \<le> m \<Longrightarrow> 20 \<le> voltage_to_percent m"
  using seg2 [of m] seg3 [of m] seg4 [of m] by (auto simp: voltage_to_percent_div)

lemma vp_from_3800: "3800 \<le> m \<Longrightarrow> 50 \<le> voltage_to_percent m"
  using seg3 [of m] seg4 [of m] by (auto simp: voltage_to_percent_div)

lemma vp_from_4100: "4100 \<le> m \<Longrightarrow> 90 \<le> voltage_to_percent m"
  using seg4 [of m] by (auto simp: voltage_to_percent_div)

lemma vp_from_4200: "4200 \<le> m \<Longrightarrow> voltage_to_percent m = 100"
  by (simp add: voltage_to_percent_div)

lemma vp_below_3300: "m < 3300 \<Longrightarrow> voltage_to_percent m = 0"
  by (simp add: voltage_to_percent_div)

lemma vp_below_3600: "m < 3600 \<Longrightarrow> voltage_to_percent m \<le> 20"
  using seg1 [of m] by (auto simp: voltage_to_percent_div)

lemma vp_below_3800: "m < 3800 \<Longrightarrow> voltage_to_percent m \<le> 50"
  using seg1 [of m] seg2 [of m] by (auto simp: voltage_to_percent_div)

lemma vp_below_4100: "m < 4100 \<Longrightarrow> voltage_to_percent m \<le> 90"
  using seg1 [of m] seg2 [of m] seg3 [of m] by (auto simp: voltage_to_percent_div)

lemma voltage_to_percent_mono:
  assumes ab: "a \<le> b"
  shows "voltage_to_percent a \<le> voltage_to_percent b"
proof -
  consider (s0) "a < 3300" | (s1) "3300 \<le> a" "a < 3600" | (s2) "3600 \<le> a" "a < 3800"
    | (s3) "3800 \<le> a" "a < 4100" | (s4) "4100 \<le> a" "a < 4200" | (s5) "4200 \<le> a"
    by linarith
  then show ?thesis
  proof cases
    case s0
    then show ?thesis using vp_ge0 [of b] by (simp add: vp_below_3300)
  next
    case s1
    show ?thesis
    proof (cases "b < 3600")
      case True
      then show ?thesis using s1 ab quot_mono [of "a - 3300" "b - 3300" 20 300]
        by (simp add: voltage_to_percent_div)
    next
      case False
      then show ?thesis using vp_from_3600 [of b] vp_below_3600 [of a] s1 by simp
    qed
  next
    case s2
    show ?thesis
    proof (cases "b < 3800")
      case True
      then show ?thesis using s2 ab quot_mono [of "a - 3600" "b - 3600" 30 200]
        by (simp add: voltage_to_percent_div)
    next
      case False
      then show ?thesis using vp_from_3800 [of b] vp_below_3800 [of a] s2 by simp
    qed
  next
    case s3
    show ?thesis
    proof (cases "b < 4100")
      case True
      then show ?thesis using s3 ab quot_mono [of "a - 3800" "b - 3800" 40 300]
        by (simp add: voltage_to_percent_div)
    next
      case False
      then show ?thesis using vp_from_4100 [of b] vp_below_4100 [of a] s3 by simp
    qed
  next
    case s4
    show ?thesis
    proof (cases "b < 4200")
      case True
      then show ?thesis using s4 ab quot_mono [of "a - 4100" "b - 4100" 10 100]
        by (simp add: voltage_to_percent_div)
    next
      case False
      then show ?thesis using vp_le100 [of a] by (simp add: vp_from_4200)
    qed
  next
    case s5
    then show ?thesis using ab by (simp add: vp_from_4200)
  qed
qed

section \<open>The claims about the battery curve\<close>

text \<open>
  Claim C4. \<open>battery_mv_to_pct\<close> is defined on every 32-bit \<open>int\<close> and its result,
  read as a number, is the value of the specification's piecewise-linear table with
  truncating division at the signed value of the argument: 100 from 4200 mV up,
  \<open>90 + (mv - 4100) * 10 / 100\<close> on [4100, 4200), \<open>50 + (mv - 3800) * 40 / 300\<close> on
  [3800, 4100), \<open>20 + (mv - 3600) * 30 / 200\<close> on [3600, 3800),
  \<open>(mv - 3300) * 20 / 300\<close> on [3300, 3600) and 0 below 3300 mV, every negative
  argument included. It maps 4200 to 100, 3700 to 35 and 3300 to 0.
\<close>

theorem C4_battery_mv_to_pct_is_table:
  "uint (battery_mv_to_pct mv) = voltage_to_percent (sint mv)
   \<and> (sint mv < 0 \<longrightarrow> battery_mv_to_pct mv = 0)
   \<and> battery_mv_to_pct 4200 = 100
   \<and> battery_mv_to_pct 3700 = 35
   \<and> battery_mv_to_pct 3300 = 0"
proof -
  have neg: "battery_mv_to_pct mv = 0" if "sint mv < 0"
    using that by (simp add: battery_mv_to_pct_def word_sle_eq)
  have "battery_mv_to_pct 4200 = 100" "battery_mv_to_pct 3700 = 35" "battery_mv_to_pct 3300 = 0"
    by (simp_all add: battery_mv_to_pct_def c_div_def word_sle_eq)
  with neg show ?thesis
    by (simp add: battery_mv_to_pct_uint)
qed

theorem C4_witness:
  "sint (- 250 :: i32) < 0 \<and> battery_mv_to_pct (- 250) = 0
   \<and> uint (battery_mv_to_pct 3999) = voltage_to_percent 3999
   \<and> voltage_to_percent 3999 = 76"
proof -
  have "voltage_to_percent 3999 = 76"
    by (simp add: voltage_to_percent_def signed_divide_int_def)
  then show ?thesis
    using C4_battery_mv_to_pct_is_table [of "- 250"] C4_battery_mv_to_pct_is_table [of 3999]
    by simp
qed

text \<open>
  Claim C5. \<open>battery_mv_to_pct\<close> is monotonically non-decreasing in the signed value
  of its argument, and its result is at most 100 (and, being unsigned, at least 0)
  for every 32-bit argument.
\<close>

theorem C5_battery_mv_to_pct_monotone_bounded:
  assumes "sint mv1 \<le> sint mv2"
  shows "battery_mv_to_pct mv1 \<le> battery_mv_to_pct mv2
         \<and> 0 \<le> battery_mv_to_pct mv1 \<and> battery_mv_to_pct mv1 \<le> 100
         \<and> 0 \<le> battery_mv_to_pct mv2 \<and> battery_mv_to_pct mv2 \<le> 100"
proof -
  have "uint (battery_mv_to_pct mv1) \<le> uint (battery_mv_to_pct mv2)"
    using assms by (simp add: battery_mv_to_pct_uint voltage_to_percent_mono)
  moreover have "uint (battery_mv_to_pct m) \<le> uint (100 :: u8)" for m
    using vp_le100 [of "sint m"] by (simp add: battery_mv_to_pct_uint)
  ultimately show ?thesis
    by (simp add: word_le_def)
qed

theorem C5_witness:
  "sint (3700 :: i32) \<le> sint (3900 :: i32)
   \<and> battery_mv_to_pct 3700 \<le> battery_mv_to_pct 3900
   \<and> battery_mv_to_pct 3700 = 35 \<and> battery_mv_to_pct 3900 = 63
   \<and> battery_mv_to_pct 3900 \<le> 100"
proof -
  have h: "sint (3700 :: i32) \<le> sint (3900 :: i32)" by simp
  have v: "battery_mv_to_pct 3700 = 35" "battery_mv_to_pct 3900 = 63"
    by (simp_all add: battery_mv_to_pct_def c_div_def word_sle_eq)
  show ?thesis
    using h v C5_battery_mv_to_pct_monotone_bounded [OF h] by simp
qed

section \<open>The configuration write handler\<close>

lemma le16_bytes: "le16 (ucast w) (ucast (drop_bit 8 w)) = w"
  unfolding le16_def
  by (rule bit_word_eqI) (auto simp: bit_simps)

lemma bytes_le16: "bytes_of_u16 (le16 a b) = [a, b]"
proof -
  have "ucast (ucast a OR push_bit 8 (ucast b :: u16) :: u16) = a"
    by (rule bit_word_eqI) (auto simp: bit_simps dest: bit_imp_le_length)
  moreover have "ucast (drop_bit 8 (ucast a OR push_bit 8 (ucast b :: u16) :: u16)) = b"
    by (rule bit_word_eqI) (auto simp: bit_simps dest: bit_imp_le_length)
  ultimately show ?thesis
    by (simp add: le16_def bytes_of_u16_def)
qed

lemma length_bytes_of_config: "length (bytes_of_config c) = sizeof_range_config"
  by (simp add: bytes_of_config_def bytes_of_u16_def sizeof_range_config_def)

lemma config_of_bytes_of_config: "config_of_bytes (bytes_of_config c) = c"
  by (simp add: config_of_bytes_def bytes_of_config_def bytes_of_u16_def le16_bytes)

text \<open>Every 8-byte payload is the image of the record the handler reads from it.\<close>

lemma bytes_of_config_of_bytes:
  assumes "length buf = 8"
  shows "bytes_of_config (config_of_bytes buf) = buf"
proof -
  from assms obtain b0 b1 b2 b3 b4 b5 b6 b7 where "buf = [b0, b1, b2, b3, b4, b5, b6, b7]"
    by (auto simp: eval_nat_numeral length_Suc_conv)
  then show ?thesis
    by (simp add: bytes_of_config_def config_of_bytes_def bytes_le16)
qed

lemma first_violation_None: "first_violation c = None \<longleftrightarrow> config_valid c"
  by (auto simp: first_violation_def config_valid_def)

text \<open>A write of 8 bytes at offset 0, in terms of the specification's validation order.\<close>

lemma write_config_full:
  "write_config g buf 8 0 flags =
     (let c = config_of_bytes buf in
      case first_violation c of
        Some r \<Rightarrow> (Inl BT_ATT_ERR_VALUE_NOT_ALLOWED, g, [rejection_log r c])
      | None \<Rightarrow>
          (Inr 8, g\<lparr>active_config := c\<rparr>,
           [Log LOG_INF ''Config updated: sample=%ums notify=%ums range=[%u-%u]mm''
              [Num (uint (sample_interval_ms c)), Num (uint (notify_interval_ms c)),
               Num (uint (min_range_mm c)), Num (uint (max_range_mm c))]]))"
  by (simp add: write_config_def sizeof_range_config_def first_violation_def Let_def
      not_le not_less)

lemma unat_len_8: "unat (len :: u16) = 8 \<longleftrightarrow> len = 8"
  by (simp add: word_unat_eq_iff)

lemma write_config_malformed:
  "len \<noteq> 8 \<Longrightarrow>
   write_config g buf len offset flags =
     (Inl (if unat offset + unat len > 8 then BT_ATT_ERR_INVALID_OFFSET
           else BT_ATT_ERR_INVALID_ATTRIBUTE_LEN), g, [])"
  by (simp add: write_config_def sizeof_range_config_def unat_len_8)

text \<open>
  Claim C1, as stated, asks for an error code that tells the violated rule. The
  handler returns one code for all three rules: a candidate with sample interval 5
  and one with notify interval 6000 violate different rules and get the same result,
  as does one with equal range bounds.
\<close>

theorem C1_counterexample:
  "first_violation \<lparr>sample_interval_ms = 5, notify_interval_ms = 100,
                     max_range_mm = 1200, min_range_mm = 30\<rparr> = Some SampleIntervalOutOfRange
   \<and> first_violation \<lparr>sample_interval_ms = 100, notify_interval_ms = 6000,
                       max_range_mm = 1200, min_range_mm = 30\<rparr> = Some NotifyIntervalOutOfRange
   \<and> first_violation \<lparr>sample_interval_ms = 100, notify_interval_ms = 100,
                       max_range_mm = 500, min_range_mm = 500\<rparr> = Some RangeBoundsInverted
   \<and> fst (write_config (initial_globals 100 100)
            (bytes_of_config \<lparr>sample_interval_ms = 5, notify_interval_ms = 100,
                               max_range_mm = 1200, min_range_mm = 30\<rparr>) 8 0 0)
       = Inl BT_ATT_ERR_VALUE_NOT_ALLOWED
   \<and> fst (write_config (initial_globals 100 100)
            (bytes_of_config \<lparr>sample_interval_ms = 100, notify_interval_ms = 6000,
                               max_range_mm = 1200, min_range_mm = 30\<rparr>) 8 0 0)
       = Inl BT_ATT_ERR_VALUE_NOT_ALLOWED
   \<and> fst (write_config (initial_globals 100 100)
            (bytes_of_config \<lparr>sample_interval_ms = 100, notify_interval_ms = 100,
                               max_range_mm = 500, min_range_mm = 500\<rparr>) 8 0 0)
       = Inl BT_ATT_ERR_VALUE_NOT_ALLOWED"
  by (simp add: write_config_full config_of_bytes_of_config first_violation_def)

text \<open>
  Claim C1, amended. For every candidate record that violates an invariant, written
  whole (8 bytes at offset 0): the handler checks the sample interval, then the notify
  interval, then the order of the bounds; it returns \<open>BT_ATT_ERR_VALUE_NOT_ALLOWED\<close>
  whichever rule is violated first, the rule showing only in the single warning it
  logs; and it leaves every program variable, the stored configuration included, as
  it was.
\<close>

theorem C1_invalid_write_rejected_config_kept:
  assumes "\<not> config_valid cand"
  shows "(case first_violation cand of
            None \<Rightarrow> False
          | Some r \<Rightarrow>
              write_config g (bytes_of_config cand) 8 0 flags
              = (Inl BT_ATT_ERR_VALUE_NOT_ALLOWED, g, [rejection_log r cand]))
         \<and> range_service_get_config (fst (snd (write_config g (bytes_of_config cand) 8 0 flags)))
           = range_service_get_config g"
proof (cases "first_violation cand")
  case None
  with assms show ?thesis by (simp add: first_violation_None)
next
  case (Some r)
  then show ?thesis
    by (simp add: write_config_full config_of_bytes_of_config)
qed

theorem C1_witness:
  "\<not> config_valid \<lparr>sample_interval_ms = 100, notify_interval_ms = 9,
                     max_range_mm = 20, min_range_mm = 20\<rparr>
   \<and> write_config (initial_globals 100 100)
        (bytes_of_config \<lparr>sample_interval_ms = 100, notify_interval_ms = 9,
                           max_range_mm = 20, min_range_mm = 20\<rparr>) 8 0 0
     = (Inl BT_ATT_ERR_VALUE_NOT_ALLOWED, initial_globals 100 100,
        [Log LOG_WRN ''Rejected config: notify_interval_ms=%u out of range'' [Num 9]])"
proof -
  have h: "\<not> config_valid \<lparr>sample_interval_ms = 100, notify_interval_ms = 9,
                            max_range_mm = 20, min_range_mm = 20\<rparr>"
    by (simp add: config_valid_def)
  have v: "first_violation \<lparr>sample_interval_ms = 100, notify_interval_ms = 9,
                            max_range_mm = 20, min_range_mm = 20\<rparr>
           = Some NotifyIntervalOutOfRange"
    by (simp add: first_violation_def)
  show ?thesis
    using h C1_invalid_write_rejected_config_kept [OF h, of "initial_globals 100 100" 0]
    by (simp add: v)
qed

text \<open>
  Claim C2. For every candidate record that satisfies the invariants, a write of its
  8 bytes at offset 0 succeeds (it returns the length, 8), and afterwards
  \<open>range_service_get_config\<close> gives exactly the candidate: the stored record is
  replaced whole and no other program variable changes.
\<close>

theorem C2_valid_write_replaces_config:
  assumes "config_valid cand"
  shows "fst (write_config g (bytes_of_config cand) 8 0 flags) = Inr 8
         \<and> fst (snd (write_config g (bytes_of_config cand) 8 0 flags))
           = g\<lparr>active_config := cand\<rparr>
         \<and> range_service_get_config (fst (snd (write_config g (bytes_of_config cand) 8 0 flags)))
           = cand"
proof -
  have "first_violation cand = None"
    using assms by (simp add: first_violation_None)
  then show ?thesis
    by (simp add: write_config_full config_of_bytes_of_config range_service_get_config_def)
qed

theorem C2_witness:
  "config_valid \<lparr>sample_interval_ms = 10, notify_interval_ms = 5000,
                  max_range_mm = 2000, min_range_mm = 0\<rparr>
   \<and> fst (write_config (initial_globals 100 100)
            (bytes_of_config \<lparr>sample_interval_ms = 10, notify_interval_ms = 5000,
                               max_range_mm = 2000, min_range_mm = 0\<rparr>) 8 0 0) = Inr 8
   \<and> range_service_get_config
       (fst (snd (write_config (initial_globals 100 100)
            (bytes_of_config \<lparr>sample_interval_ms = 10, notify_interval_ms = 5000,
                               max_range_mm = 2000, min_range_mm = 0\<rparr>) 8 0 0)))
     = \<lparr>sample_interval_ms = 10, notify_interval_ms = 5000,
         max_range_mm = 2000, min_range_mm = 0\<rparr>"
proof -
  have h: "config_valid \<lparr>sample_interval_ms = 10, notify_interval_ms = 5000,
                          max_range_mm = 2000, min_range_mm = 0\<rparr>"
    by (simp add: config_valid_def)
  show ?thesis
    using h C2_valid_write_replaces_config [OF h, of "initial_globals 100 100" 0]
    by (simp add: range_service_get_config_def)
qed

text \<open>
  Claim C8, as stated, has every write of a length other than 8 rejected with the
  malformed-length code. A 9-byte write at offset 0 is rejected with the
  invalid-offset code instead: the handler compares \<open>offset + len\<close> with the size
  of the record before it looks at \<open>len\<close> alone.
\<close>

theorem C8_counterexample:
  "write_config (initial_globals 100 100) [0, 0, 0, 0, 0, 0, 0, 0, 0] 9 0 0
     = (Inl BT_ATT_ERR_INVALID_OFFSET, initial_globals 100 100, [])
   \<and> fst (write_config (initial_globals 100 100) [0, 0, 0, 0, 0, 0, 0, 0, 0] 9 0 0)
     \<noteq> Inl BT_ATT_ERR_INVALID_ATTRIBUTE_LEN"
  by (simp add: write_config_def sizeof_range_config_def)

text \<open>
  Claim C8, amended. Every write whose length is not 8 is rejected before the payload
  is read: with \<open>BT_ATT_ERR_INVALID_OFFSET\<close> when \<open>offset + len\<close> exceeds 8 (so for
  every length above 8), otherwise with \<open>BT_ATT_ERR_INVALID_ATTRIBUTE_LEN\<close>. Both
  codes differ from the validation code \<open>BT_ATT_ERR_VALUE_NOT_ALLOWED\<close>, nothing is
  logged, and no program variable changes. A 6-byte write at offset 0 gets
  \<open>BT_ATT_ERR_INVALID_ATTRIBUTE_LEN\<close>. The 8 bytes of a record are its four fields
  in the order sample interval, notify interval, maximum, minimum.
\<close>

theorem C8_wrong_length_rejected_before_validation:
  assumes "len \<noteq> 8"
  shows "write_config g buf len offset flags
           = (Inl (if unat offset + unat len > 8 then BT_ATT_ERR_INVALID_OFFSET
                   else BT_ATT_ERR_INVALID_ATTRIBUTE_LEN), g, [])
         \<and> fst (write_config g buf len offset flags) \<noteq> Inl BT_ATT_ERR_VALUE_NOT_ALLOWED
         \<and> write_config g buf 6 0 flags = (Inl BT_ATT_ERR_INVALID_ATTRIBUTE_LEN, g, [])
         \<and> length (bytes_of_config c) = 8
         \<and> config_of_bytes [2, 1, 4, 3, 6, 5, 8, 7]
           = \<lparr>sample_interval_ms = 0x0102, notify_interval_ms = 0x0304,
               max_range_mm = 0x0506, min_range_mm = 0x0708\<rparr>"
proof -
  have "write_config g buf 6 0 flags = (Inl BT_ATT_ERR_INVALID_ATTRIBUTE_LEN, g, [])"
    by (simp add: write_config_malformed)
  moreover have "length (bytes_of_config c) = 8"
    by (simp add: length_bytes_of_config sizeof_range_config_def)
  moreover have "config_of_bytes [2, 1, 4, 3, 6, 5, 8, 7]
                 = \<lparr>sample_interval_ms = 0x0102, notify_interval_ms = 0x0304,
                     max_range_mm = 0x0506, min_range_mm = 0x0708\<rparr>"
    by (simp add: config_of_bytes_def le16_def)
  ultimately show ?thesis
    using assms by (simp add: write_config_malformed)
qed

theorem C8_witness:
  "(6 :: u16) \<noteq> 8
   \<and> write_config (initial_globals 100 100) [50, 0, 100, 0, 176, 4] 6 0 0
     = (Inl BT_ATT_ERR_INVALID_ATTRIBUTE_LEN, initial_globals 100 100, [])
   \<and> write_config (initial_globals 100 100) [50, 0, 100, 0, 176, 4] 6 3 0
     = (Inl BT_ATT_ERR_INVALID_OFFSET, initial_globals 100 100, [])"
proof -
  have h: "(6 :: u16) \<noteq> 8" by simp
  show ?thesis
    using h
      C8_wrong_length_rejected_before_validation
        [OF h, of "initial_globals 100 100" "[50, 0, 100, 0, 176, 4]" 0 0]
      C8_wrong_length_rejected_before_validation
        [OF h, of "initial_globals 100 100" "[50, 0, 100, 0, 176, 4]" 3 0]
    by simp
qed

section \<open>The sensor loop\<close>

lemma notifications_append: "notifications (xs @ ys) = notifications xs @ notifications ys"
  by (induction xs rule: notifications.induct) simp_all

lemma notifications_read_range_mm: "notifications (snd (read_range_mm a)) = []"
  by (simp add: read_range_mm_def)

lemma sensor_tick_ok:
  assumes "0 \<le>s fst (read_range_mm a)"
  shows "sensor_tick g a notify_ret =
           (g\<lparr>current_range_mm := clamp_distance (active_config g) (fst (read_range_mm a))\<rparr>,
            snd (read_range_mm a)
            @ (if range_notify_enabled g
               then [Bt_gatt_notify (clamp_distance (active_config g) (fst (read_range_mm a)))]
               else [])
            @ [K_msleep (sample_interval_ms (active_config g))])"
proof -
  obtain d ev where r: "read_range_mm a = (d, ev)"
    by (cases "read_range_mm a")
  with assms have "0 \<le>s d" by simp
  then show ?thesis
    by (simp add: sensor_tick_def r range_service_update_def range_service_get_config_def
        Let_def)
qed

lemma sensor_tick_failed:
  assumes "fst (read_range_mm a) <s 0"
  shows "sensor_tick g a notify_ret =
           (g, snd (read_range_mm a) @ [K_msleep (sample_interval_ms (active_config g))])"
proof -
  obtain d ev where r: "read_range_mm a = (d, ev)"
    by (cases "read_range_mm a")
  with assms have "\<not> 0 \<le>s d"
    by (simp add: word_sless_alt word_sle_eq)
  then show ?thesis
    by (simp add: sensor_tick_def r range_service_get_config_def)
qed

lemma sensor_tick_frame:
  "active_config (fst (sensor_tick g a nr)) = active_config g
   \<and> range_notify_enabled (fst (sensor_tick g a nr)) = range_notify_enabled g
   \<and> current_conn (fst (sensor_tick g a nr)) = current_conn g"
  by (cases "0 \<le>s fst (read_range_mm a)")
     (simp_all add: sensor_tick_ok sensor_tick_failed word_sless_alt word_sle_eq not_le)

lemma sensor_loop_Cons:
  "sensor_loop g ((a, nr) # rest) =
     (fst (sensor_loop (fst (sensor_tick g a nr)) rest),
      snd (sensor_tick g a nr) @ snd (sensor_loop (fst (sensor_tick g a nr)) rest))"
  by (simp split: prod.splits)

lemma sensor_loop_frame:
  "active_config (fst (sensor_loop g answers)) = active_config g
   \<and> range_notify_enabled (fst (sensor_loop g answers)) = range_notify_enabled g
   \<and> current_conn (fst (sensor_loop g answers)) = current_conn g"
proof (induction answers arbitrary: g)
  case Nil
  then show ?case by simp
next
  case (Cons x answers)
  obtain a nr where x: "x = (a, nr)" by (cases x)
  show ?case
    using Cons.IH [of "fst (sensor_tick g a nr)"] sensor_tick_frame [of g a nr]
    by (simp del: sensor_loop.simps(2) add: x sensor_loop_Cons)
qed

lemma sensor_loop_notifications:
  "notifications (snd (sensor_loop g answers))
   = (if range_notify_enabled g then accepted (active_config g) answers else [])"
proof (induction answers arbitrary: g)
  case Nil
  then show ?case by (simp add: accepted_def)
next
  case (Cons x answers)
  obtain a nr where x: "x = (a, nr)" by (cases x)
  show ?case
  proof (cases "0 \<le>s fst (read_range_mm a)")
    case True
    then show ?thesis
      using Cons.IH [of "fst (sensor_tick g a nr)"]
      by (simp del: sensor_loop.simps(2)
          add: x sensor_loop_Cons sensor_tick_ok notifications_append
          notifications_read_range_mm accepted_def)
  next
    case False
    then have "fst (read_range_mm a) <s 0"
      by (simp add: word_sless_alt word_sle_eq)
    then show ?thesis
      using Cons.IH [of g] False
      by (simp del: sensor_loop.simps(2)
          add: x sensor_loop_Cons sensor_tick_failed notifications_append
          notifications_read_range_mm accepted_def)
  qed
qed

lemma sensor_loop_current_range_mm:
  "current_range_mm (fst (sensor_loop g answers))
   = last (current_range_mm g # accepted (active_config g) answers)"
proof (induction answers arbitrary: g)
  case Nil
  then show ?case by (simp add: accepted_def)
next
  case (Cons x answers)
  obtain a nr where x: "x = (a, nr)" by (cases x)
  show ?case
  proof (cases "0 \<le>s fst (read_range_mm a)")
    case True
    then show ?thesis
      using Cons.IH [of "fst (sensor_tick g a nr)"]
      by (simp del: sensor_loop.simps(2) add: x sensor_loop_Cons sensor_tick_ok accepted_def)
  next
    case False
    then have "fst (read_range_mm a) <s 0"
      by (simp add: word_sless_alt word_sle_eq)
    then show ?thesis
      using Cons.IH [of g] False
      by (simp del: sensor_loop.simps(2) add: x sensor_loop_Cons sensor_tick_failed accepted_def)
  qed
qed

lemma narrow_u16: "uint (ucast (d :: i32) :: u16) = sint d mod 65536"
proof -
  have "uint (ucast d :: u16) = take_bit 16 (uint d)"
    by (simp add: unsigned_ucast_eq)
  also have "\<dots> = take_bit 16 (take_bit 32 (sint d))"
    by (simp only: uint_sint [of d]) simp
  also have "\<dots> = take_bit 16 (sint d)"
    by simp
  also have "\<dots> = sint d mod 65536"
    by (simp add: take_bit_eq_mod)
  finally show ?thesis .
qed

lemma clamp_distance_window:
  assumes "min_range_mm cfg \<le> max_range_mm cfg"
  shows "min_range_mm cfg \<le> clamp_distance cfg d \<and> clamp_distance cfg d \<le> max_range_mm cfg"
  using assms by (auto simp: clamp_distance_def Let_def)


lemma clamp_distance_small:
  assumes d: "0 \<le> sint d" "sint d < 65536"
    and c: "min_range_mm cfg \<le> max_range_mm cfg"
  shows "uint (clamp_distance cfg d)
         = (if sint d < uint (min_range_mm cfg) then uint (min_range_mm cfg)
            else if uint (max_range_mm cfg) < sint d then uint (max_range_mm cfg)
            else sint d)"
proof -
  have "uint (ucast d :: u16) = sint d"
    using d by (simp add: narrow_u16)
  then show ?thesis
    using c by (auto simp: clamp_distance_def Let_def word_less_def word_le_def)
qed

lemma write_config_keeps_bounds_ordered:
  assumes "min_range_mm (active_config g) < max_range_mm (active_config g)"
  shows "min_range_mm (active_config (fst (snd (write_config g buf len offset flags))))
         < max_range_mm (active_config (fst (snd (write_config g buf len offset flags))))"
  using assms by (simp add: write_config_def Let_def not_le)

lemma read_range_mm_one_fetch:
  "length (filter (\<lambda>e. e = Sensor_sample_fetch) (snd (read_range_mm a))) = 1"
  by (simp add: read_range_mm_def)

text \<open>
  Claim C9. When \<open>read_range_mm\<close> returns a negative value on a pass of the sensor
  loop, that pass changes no program variable (the stored distance keeps its value),
  asks the driver for a sample once and never again, calls \<open>bt_gatt_notify\<close> not at
  all, sleeps for the sample interval, and the loop goes on to its next pass from the
  unchanged variables.
\<close>

theorem C9_failed_read_skips_tick:
  assumes "fst (read_range_mm a) <s 0"
  shows "fst (sensor_tick g a notify_ret) = g
         \<and> notifications (snd (sensor_tick g a notify_ret)) = []
         \<and> length (filter (\<lambda>e. e = Sensor_sample_fetch) (snd (sensor_tick g a notify_ret))) = 1
         \<and> snd (sensor_tick g a notify_ret)
           = snd (read_range_mm a) @ [K_msleep (sample_interval_ms (active_config g))]
         \<and> sensor_loop g ((a, notify_ret) # rest)
           = (fst (sensor_loop g rest),
              snd (sensor_tick g a notify_ret) @ snd (sensor_loop g rest))"
  using assms
  by (simp del: sensor_loop.simps(2)
      add: sensor_loop_Cons sensor_tick_failed notifications_append
        notifications_read_range_mm read_range_mm_one_fetch)

theorem C9_witness:
  "fst (read_range_mm \<lparr>fetch_ret = - 5, get_ret = 0, val1 = 0, val2 = 500000\<rparr>) <s 0
   \<and> sensor_tick (initial_globals 100 100)
        \<lparr>fetch_ret = - 5, get_ret = 0, val1 = 0, val2 = 500000\<rparr> 0
     = (initial_globals 100 100,
        [Sensor_sample_fetch, Log LOG_WRN ''Sensor fetch failed: %d'' [Num (- 5)],
         K_msleep 100])"
proof -
  have h: "fst (read_range_mm \<lparr>fetch_ret = - 5, get_ret = 0, val1 = 0, val2 = 500000\<rparr>) <s 0"
    by (simp add: read_range_mm_def word_sless_alt)
  have e: "snd (read_range_mm \<lparr>fetch_ret = - 5, get_ret = 0, val1 = 0, val2 = 500000\<rparr>)
           = [Sensor_sample_fetch, Log LOG_WRN ''Sensor fetch failed: %d'' [Num (- 5)]]"
    by (simp add: read_range_mm_def word_sless_alt)
  have c: "sample_interval_ms (active_config (initial_globals 100 100)) = 100"
    by (simp add: initial_globals_def)
  show ?thesis
    using h C9_failed_read_skips_tick [OF h, of "initial_globals 100 100" 0 "[]"]
    by (simp add: e c prod_eq_iff)
qed

lemma range_service_update_eq:
  "range_service_update g d notify_ret =
     (if range_notify_enabled g
      then (notify_ret, g\<lparr>current_range_mm := d\<rparr>, [Bt_gatt_notify d])
      else (0, g\<lparr>current_range_mm := d\<rparr>, []))"
  by (simp add: range_service_update_def Let_def)

text \<open>
  Claim C6. On a pass of the sensor loop whose read succeeds, the clamped value is
  stored in \<open>current_range_mm\<close> whether or not the subscription flag is set; with
  the flag clear no \<open>bt_gatt_notify\<close> call is made, with the flag set exactly one is
  made and it carries the value just stored. The pass leaves the flag as it was, so
  over any run of passes the notifications are, one for one and in order, the clamped
  values of the successful reads when the flag is set, and none when it is clear. The
  flag is set by the subscription callback exactly when it is given the notify value.
\<close>

theorem C6_notification_gate:
  assumes "0 \<le>s fst (read_range_mm a)"
  shows "current_range_mm (fst (sensor_tick g a notify_ret))
           = clamp_distance (active_config g) (fst (read_range_mm a))
         \<and> notifications (snd (sensor_tick g a notify_ret))
           = (if range_notify_enabled g
              then [current_range_mm (fst (sensor_tick g a notify_ret))] else [])
         \<and> range_notify_enabled (fst (sensor_tick g a notify_ret)) = range_notify_enabled g
         \<and> notifications (snd (sensor_loop g answers))
           = (if range_notify_enabled g then accepted (active_config g) answers else [])
         \<and> current_range_mm (fst (sensor_loop g answers))
           = last (current_range_mm g # accepted (active_config g) answers)
         \<and> range_notify_enabled (fst (sensor_loop g answers)) = range_notify_enabled g
         \<and> notifications (snd (snd (range_service_update g d notify_ret)))
           = (if range_notify_enabled g then [d] else [])
         \<and> current_range_mm (fst (snd (range_service_update g d notify_ret))) = d
         \<and> range_notify_enabled (fst (range_ccc_changed g v)) = (v = BT_GATT_CCC_NOTIFY)"
proof -
  have "range_notify_enabled (fst (range_ccc_changed g v)) = (v = BT_GATT_CCC_NOTIFY)"
    by (simp add: range_ccc_changed_def Let_def)
  moreover have "range_notify_enabled (fst (sensor_loop g answers)) = range_notify_enabled g"
    by (simp add: sensor_loop_frame)
  ultimately show ?thesis
    using assms
    by (simp add: sensor_tick_ok notifications_append notifications_read_range_mm
        sensor_loop_notifications sensor_loop_current_range_mm range_service_update_eq)
qed

theorem C6_witness:
  "0 \<le>s fst (read_range_mm \<lparr>fetch_ret = 0, get_ret = 0, val1 = 1, val2 = 500000\<rparr>)
   \<and> snd (sensor_tick (initial_globals 100 100)
            \<lparr>fetch_ret = 0, get_ret = 0, val1 = 1, val2 = 500000\<rparr> 0)
     = [Sensor_sample_fetch, Sensor_channel_get, K_msleep 100]
   \<and> current_range_mm (fst (sensor_tick (initial_globals 100 100)
            \<lparr>fetch_ret = 0, get_ret = 0, val1 = 1, val2 = 500000\<rparr> 0)) = 1200
   \<and> snd (sensor_tick (fst (range_ccc_changed (initial_globals 100 100) BT_GATT_CCC_NOTIFY))
            \<lparr>fetch_ret = 0, get_ret = 0, val1 = 1, val2 = 500000\<rparr> 0)
     = [Sensor_sample_fetch, Sensor_channel_get, Bt_gatt_notify 1200, K_msleep 100]
   \<and> notifications
        (snd (sensor_tick (fst (range_ccc_changed (initial_globals 100 100) BT_GATT_CCC_NOTIFY))
            \<lparr>fetch_ret = 0, get_ret = 0, val1 = 1, val2 = 500000\<rparr> 0))
     = [1200]"
proof -
  let ?a = "\<lparr>fetch_ret = 0, get_ret = 0, val1 = 1, val2 = 500000\<rparr>"
  let ?g = "initial_globals 100 100"
  let ?g1 = "fst (range_ccc_changed ?g BT_GATT_CCC_NOTIFY)"
  have r: "read_range_mm ?a = (1500, [Sensor_sample_fetch, Sensor_channel_get])"
    by (simp add: read_range_mm_def word_sless_alt c_div_def signed_divide_int_def)
  have h: "0 \<le>s fst (read_range_mm ?a)"
    by (simp add: r word_sle_eq)
  have c: "clamp_distance (active_config ?g) 1500 = 1200"
    by (simp add: clamp_distance_def initial_globals_def)
  have g1: "active_config ?g1 = active_config ?g" "range_notify_enabled ?g1"
    by (simp_all add: range_ccc_changed_def Let_def)
  have g0: "\<not> range_notify_enabled ?g" "sample_interval_ms (active_config ?g) = 100"
    by (simp_all add: initial_globals_def)
  show ?thesis
    using h C6_notification_gate [OF h, of ?g 0 "[]" 0 0]
      C6_notification_gate [OF h, of ?g1 0 "[]" 0 0]
    by (simp add: sensor_tick_ok r c g1 g0)
qed

section \<open>The disconnect handler\<close>

text \<open>
  Claim C7, as stated, has the disconnect handler force the subscription flag to
  closed. The handler does not touch \<open>range_notify_enabled\<close>: after a peer has
  connected and subscribed, the flag is set, and it is still set when \<open>disconnected\<close>
  has run.
\<close>

theorem C7_counterexample:
  "range_notify_enabled
     (fst (range_ccc_changed (fst (connected (initial_globals 100 100) 7 0 (Some 7)))
             BT_GATT_CCC_NOTIFY))
   \<and> range_notify_enabled
       (fst (disconnected
               (fst (range_ccc_changed (fst (connected (initial_globals 100 100) 7 0 (Some 7)))
                       BT_GATT_CCC_NOTIFY))
               7 19 0))"
  by (simp add: disconnected_def range_ccc_changed_def connected_def initial_globals_def
      Let_def)

text \<open>
  Claim C7, amended. On a disconnect the handler releases the peer handle it holds, if
  any, and clears \<open>current_conn\<close>; it leaves the subscription flag as it was (only the
  subscription callback writes it); and it calls \<open>bt_le_adv_start\<close> exactly once. When
  that call fails the handler logs an error and returns as it does on success: the
  program variables are the same in both cases.
\<close>

theorem C7_disconnect_releases_and_restarts_advertising:
  "current_conn (fst (disconnected g c reason adv_err)) = None
   \<and> released (snd (disconnected g c reason adv_err))
     = (case current_conn g of None \<Rightarrow> [] | Some cc \<Rightarrow> [cc])
   \<and> range_notify_enabled (fst (disconnected g c reason adv_err)) = range_notify_enabled g
   \<and> current_range_mm (fst (disconnected g c reason adv_err)) = current_range_mm g
   \<and> active_config (fst (disconnected g c reason adv_err)) = active_config g
   \<and> length (filter (\<lambda>e. e = Bt_le_adv_start) (snd (disconnected g c reason adv_err))) = 1
   \<and> fst (disconnected g c reason adv_err) = fst (disconnected g c reason 0)
   \<and> snd (disconnected g c reason adv_err)
     = snd (disconnected g c reason 0)
       @ (if adv_err = 0 then []
          else [Log LOG_ERR ''Advertising restart failed (err %d)'' [Num (sint adv_err)]])"
proof (cases "current_conn g")
  case None
  then show ?thesis
    by (simp add: disconnected_def Let_def)
next
  case (Some cc)
  then show ?thesis
    by (simp add: disconnected_def Let_def)
qed

section \<open>The clamp and the narrowing cast\<close>

text \<open>
  Claim C3 at the raw distance 66000 mm (66 whole metres) under the default
  configuration: the distance is above the maximum 1200, and the value stored is 464,
  which is 66000 - 65536, not the maximum.
\<close>

theorem C3_stored_value_at_66000:
  "sint (fst (read_range_mm \<lparr>fetch_ret = 0, get_ret = 0, val1 = 66, val2 = 0\<rparr>)) = 66000
   \<and> max_range_mm (range_service_get_config (initial_globals s n)) = 1200
   \<and> current_range_mm
       (fst (sensor_tick (initial_globals s n)
               \<lparr>fetch_ret = 0, get_ret = 0, val1 = 66, val2 = 0\<rparr> notify_ret)) = 464"
proof -
  have r: "read_range_mm \<lparr>fetch_ret = 0, get_ret = 0, val1 = 66, val2 = 0\<rparr>
           = (66000, [Sensor_sample_fetch, Sensor_channel_get])"
    by (simp add: read_range_mm_def word_sless_alt c_div_def)
  have h: "0 \<le>s fst (read_range_mm \<lparr>fetch_ret = 0, get_ret = 0, val1 = 66, val2 = 0\<rparr>)"
    by (simp add: r word_sle_eq)
  have "clamp_distance (active_config (initial_globals s n)) 66000 = 464"
    by (simp add: clamp_distance_def initial_globals_def)
  then show ?thesis
    by (simp add: sensor_tick_ok [OF h] r range_service_get_config_def initial_globals_def)
qed

text \<open>
  Claim C10. The sensor loop narrows the \<open>int\<close> distance to 16 bits before it clamps:
  whenever the distance modulo 65536 lies inside the configured window, that residue
  is what is stored, whatever the distance itself is. At the raw distance 65566 mm
  under the default configuration (window 30 to 1200) the stored value is
  65566 mod 65536 = 30, not the upper bound 1200.
\<close>

theorem C10_distance_narrowed_before_clamp:
  assumes "0 \<le>s fst (read_range_mm a)"
  shows "(uint (min_range_mm (active_config g)) \<le> sint (fst (read_range_mm a)) mod 65536
          \<and> sint (fst (read_range_mm a)) mod 65536 \<le> uint (max_range_mm (active_config g))
          \<longrightarrow> uint (current_range_mm (fst (sensor_tick g a notify_ret)))
              = sint (fst (read_range_mm a)) mod 65536)
         \<and> sint (fst (read_range_mm \<lparr>fetch_ret = 0, get_ret = 0, val1 = 65, val2 = 566000\<rparr>))
           = 65566
         \<and> uint (max_range_mm (active_config (initial_globals s n))) = 1200
         \<and> uint (min_range_mm (active_config (initial_globals s n))) = 30
         \<and> uint (current_range_mm
                   (fst (sensor_tick (initial_globals s n)
                     \<lparr>fetch_ret = 0, get_ret = 0, val1 = 65, val2 = 566000\<rparr> notify_ret)))
           = 65566 mod 65536
         \<and> (65566 :: int) mod 65536 = 30"
proof -
  let ?d = "fst (read_range_mm a)"
  have gen: "uint (current_range_mm (fst (sensor_tick g a notify_ret))) = sint ?d mod 65536"
    if "uint (min_range_mm (active_config g)) \<le> sint ?d mod 65536"
      and "sint ?d mod 65536 \<le> uint (max_range_mm (active_config g))"
  proof -
    have "\<not> (ucast ?d :: u16) < min_range_mm (active_config g)"
      "\<not> max_range_mm (active_config g) < (ucast ?d :: u16)"
      using that by (simp_all add: word_less_def narrow_u16)
    then have "clamp_distance (active_config g) ?d = ucast ?d"
      by (simp add: clamp_distance_def Let_def)
    then show ?thesis
      by (simp add: sensor_tick_ok [OF assms] narrow_u16)
  qed
  let ?b = "\<lparr>fetch_ret = 0, get_ret = 0, val1 = 65, val2 = 566000\<rparr>"
  have r: "read_range_mm ?b = (65566, [Sensor_sample_fetch, Sensor_channel_get])"
    by (simp add: read_range_mm_def word_sless_alt c_div_def signed_divide_int_def)
  have h: "0 \<le>s fst (read_range_mm ?b)"
    by (simp add: r word_sle_eq)
  have "clamp_distance (active_config (initial_globals s n)) 65566 = 30"
    by (simp add: clamp_distance_def initial_globals_def)
  then have "uint (current_range_mm (fst (sensor_tick (initial_globals s n) ?b notify_ret)))
             = 65566 mod 65536"
    by (simp add: sensor_tick_ok [OF h] r)
  with gen show ?thesis
    by (simp add: r initial_globals_def)
qed

theorem C10_witness:
  "0 \<le>s fst (read_range_mm \<lparr>fetch_ret = 0, get_ret = 0, val1 = 65, val2 = 566000\<rparr>)
   \<and> sint (fst (read_range_mm \<lparr>fetch_ret = 0, get_ret = 0, val1 = 65, val2 = 566000\<rparr>))
     = 65566
   \<and> max_range_mm (active_config (initial_globals 100 100)) = 1200
   \<and> current_range_mm
        (fst (sensor_tick (initial_globals 100 100)
                \<lparr>fetch_ret = 0, get_ret = 0, val1 = 65, val2 = 566000\<rparr> 0)) = 30"
proof -
  let ?b = "\<lparr>fetch_ret = 0, get_ret = 0, val1 = 65, val2 = 566000\<rparr>"
  have r: "read_range_mm ?b = (65566, [Sensor_sample_fetch, Sensor_channel_get])"
    by (simp add: read_range_mm_def word_sless_alt c_div_def signed_divide_int_def)
  have h: "0 \<le>s fst (read_range_mm ?b)"
    by (simp add: r word_sle_eq)
  have m: "max_range_mm (active_config (initial_globals 100 100)) = 1200"
    "uint (min_range_mm (active_config (initial_globals 100 100))) = 30"
    by (simp_all add: initial_globals_def)
  have "uint (current_range_mm (fst (sensor_tick (initial_globals 100 100) ?b 0))) = 30"
    using C10_distance_narrowed_before_clamp [OF h, of "initial_globals 100 100" 0 100 100]
    by (simp add: r m)
  then have "current_range_mm (fst (sensor_tick (initial_globals 100 100) ?b 0)) = 30"
    by (simp add: word_uint_eq_iff)
  then show ?thesis
    using h by (simp add: r m)
qed

section \<open>Further properties of the code\<close>

text \<open>
  X1. For every raw distance the sensor loop reads successfully, the value stored by
  that pass lies inside the window of the active configuration, provided the window
  is not empty.
\<close>

theorem X1_stored_value_in_window:
  assumes "0 \<le>s fst (read_range_mm a)"
    and "min_range_mm (active_config g) \<le> max_range_mm (active_config g)"
  shows "min_range_mm (active_config g) \<le> current_range_mm (fst (sensor_tick g a notify_ret))
         \<and> current_range_mm (fst (sensor_tick g a notify_ret)) \<le> max_range_mm (active_config g)"
  using assms by (simp add: sensor_tick_ok clamp_distance_window)

theorem X1_witness:
  "0 \<le>s fst (read_range_mm \<lparr>fetch_ret = 0, get_ret = 0, val1 = 70, val2 = 0\<rparr>)
   \<and> min_range_mm (active_config (initial_globals 100 100))
     \<le> max_range_mm (active_config (initial_globals 100 100))
   \<and> (30 :: u16) \<le> current_range_mm (fst (sensor_tick (initial_globals 100 100)
                         \<lparr>fetch_ret = 0, get_ret = 0, val1 = 70, val2 = 0\<rparr> 0))
   \<and> current_range_mm (fst (sensor_tick (initial_globals 100 100)
                         \<lparr>fetch_ret = 0, get_ret = 0, val1 = 70, val2 = 0\<rparr> 0))
     \<le> (1200 :: u16)"
proof -
  let ?a = "\<lparr>fetch_ret = 0, get_ret = 0, val1 = 70, val2 = 0\<rparr>"
  have h: "0 \<le>s fst (read_range_mm ?a)"
    by (simp add: read_range_mm_def word_sless_alt c_div_def word_sle_eq)
  have c: "min_range_mm (active_config (initial_globals 100 100))
           \<le> max_range_mm (active_config (initial_globals 100 100))"
    by (simp add: initial_globals_def)
  have m: "min_range_mm (active_config (initial_globals 100 100)) = 30"
    "max_range_mm (active_config (initial_globals 100 100)) = 1200"
    by (simp_all add: initial_globals_def)
  show ?thesis
    using h c X1_stored_value_in_window [OF h c, of 0]
    by (simp add: m)
qed

text \<open>
  X2. For every raw distance from 0 to 65535 mm read successfully under a
  configuration whose window is not empty, the stored value is the distance clamped
  into the window: the minimum when the distance is below it, the maximum when the
  distance is above it, the distance itself otherwise. Under the default
  configuration 1500 mm is stored as 1200 and 5 mm as 30.
\<close>

theorem X2_clamp_below_65536:
  assumes "0 \<le>s fst (read_range_mm a)"
    and "sint (fst (read_range_mm a)) < 65536"
    and "min_range_mm (active_config g) \<le> max_range_mm (active_config g)"
  shows "uint (current_range_mm (fst (sensor_tick g a notify_ret)))
         = (if sint (fst (read_range_mm a)) < uint (min_range_mm (active_config g))
              then uint (min_range_mm (active_config g))
            else if uint (max_range_mm (active_config g)) < sint (fst (read_range_mm a))
              then uint (max_range_mm (active_config g))
            else sint (fst (read_range_mm a)))"
proof -
  have "0 \<le> sint (fst (read_range_mm a))"
    using assms(1) by (simp add: word_sle_eq)
  then show ?thesis
    using assms by (simp add: sensor_tick_ok clamp_distance_small)
qed

theorem X2_witness:
  "0 \<le>s fst (read_range_mm \<lparr>fetch_ret = 0, get_ret = 0, val1 = 1, val2 = 500000\<rparr>)
   \<and> sint (fst (read_range_mm \<lparr>fetch_ret = 0, get_ret = 0, val1 = 1, val2 = 500000\<rparr>)) = 1500
   \<and> uint (current_range_mm (fst (sensor_tick (initial_globals 100 100)
              \<lparr>fetch_ret = 0, get_ret = 0, val1 = 1, val2 = 500000\<rparr> 0))) = 1200
   \<and> 0 \<le>s fst (read_range_mm \<lparr>fetch_ret = 0, get_ret = 0, val1 = 0, val2 = 5000\<rparr>)
   \<and> sint (fst (read_range_mm \<lparr>fetch_ret = 0, get_ret = 0, val1 = 0, val2 = 5000\<rparr>)) = 5
   \<and> uint (current_range_mm (fst (sensor_tick (initial_globals 100 100)
              \<lparr>fetch_ret = 0, get_ret = 0, val1 = 0, val2 = 5000\<rparr> 0))) = 30"
proof -
  let ?a = "\<lparr>fetch_ret = 0, get_ret = 0, val1 = 1, val2 = 500000\<rparr>"
  let ?b = "\<lparr>fetch_ret = 0, get_ret = 0, val1 = 0, val2 = 5000\<rparr>"
  have ra: "fst (read_range_mm ?a) = 1500" and rb: "fst (read_range_mm ?b) = 5"
    by (simp_all add: read_range_mm_def word_sless_alt c_div_def signed_divide_int_def)
  have ha: "0 \<le>s fst (read_range_mm ?a)" and hb: "0 \<le>s fst (read_range_mm ?b)"
    by (simp_all add: ra rb word_sle_eq)
  have sa: "sint (fst (read_range_mm ?a)) < 65536" and sb: "sint (fst (read_range_mm ?b)) < 65536"
    by (simp_all add: ra rb)
  have c: "min_range_mm (active_config (initial_globals 100 100))
           \<le> max_range_mm (active_config (initial_globals 100 100))"
    by (simp add: initial_globals_def)
  have m: "min_range_mm (active_config (initial_globals 100 100)) = 30"
    "max_range_mm (active_config (initial_globals 100 100)) = 1200"
    by (simp_all add: initial_globals_def)
  show ?thesis
    using ha hb X2_clamp_below_65536 [OF ha sa c, of 0] X2_clamp_below_65536 [OF hb sb c, of 0]
    by (simp add: ra rb m)
qed

text \<open>
  X3. The bounds of the stored configuration are strictly ordered from the start, and
  no function changes that: \<open>write_config\<close> replaces the record only by one whose
  bounds are ordered, and the other functions leave the record as it is.
\<close>

theorem X3_bounds_stay_ordered:
  assumes "min_range_mm (active_config g) < max_range_mm (active_config g)"
  shows "min_range_mm (active_config (fst (snd (write_config g buf len offset flags))))
           < max_range_mm (active_config (fst (snd (write_config g buf len offset flags))))
         \<and> active_config (fst (range_ccc_changed g v)) = active_config g
         \<and> active_config (fst (snd (range_service_update g d notify_ret))) = active_config g
         \<and> active_config (fst (connected g c err ref)) = active_config g
         \<and> active_config (fst (disconnected g c reason adv_err)) = active_config g
         \<and> active_config (fst (sensor_loop g answers)) = active_config g
         \<and> min_range_mm (active_config (initial_globals s n))
           < max_range_mm (active_config (initial_globals s n))"
proof -
  have "active_config (fst (disconnected g c reason adv_err)) = active_config g"
    by (cases "current_conn g") (simp_all add: disconnected_def Let_def)
  moreover have "active_config (fst (sensor_loop g answers)) = active_config g"
    by (simp add: sensor_loop_frame)
  ultimately show ?thesis
    using write_config_keeps_bounds_ordered [OF assms, of buf len offset flags]
    by (simp add: range_ccc_changed_def range_service_update_eq connected_def
        initial_globals_def Let_def)
qed

theorem X3_witness:
  "min_range_mm (active_config (initial_globals 100 100))
     < max_range_mm (active_config (initial_globals 100 100))
   \<and> min_range_mm (active_config (fst (snd (write_config (initial_globals 100 100)
        (bytes_of_config \<lparr>sample_interval_ms = 50, notify_interval_ms = 50,
                           max_range_mm = 800, min_range_mm = 100\<rparr>) 8 0 0))))
     < max_range_mm (active_config (fst (snd (write_config (initial_globals 100 100)
        (bytes_of_config \<lparr>sample_interval_ms = 50, notify_interval_ms = 50,
                           max_range_mm = 800, min_range_mm = 100\<rparr>) 8 0 0))))"
proof -
  have h: "min_range_mm (active_config (initial_globals 100 100))
           < max_range_mm (active_config (initial_globals 100 100))"
    by (simp add: initial_globals_def)
  show ?thesis
    using h
      X3_bounds_stay_ordered
        [OF h, where buf = "bytes_of_config \<lparr>sample_interval_ms = 50, notify_interval_ms = 50,
                           max_range_mm = 800, min_range_mm = 100\<rparr>"
          and len = 8 and offset = 0 and flags = 0]
    by simp
qed

text \<open>
  X4. A write of 8 bytes at an offset other than 0 is rejected with the invalid-offset
  code, whatever the bytes are, and changes nothing.
\<close>

theorem X4_full_length_at_offset_rejected:
  assumes "offset \<noteq> 0"
  shows "write_config g buf 8 offset flags = (Inl BT_ATT_ERR_INVALID_OFFSET, g, [])"
proof -
  have "unat offset \<noteq> 0"
    using assms by (simp add: unat_eq_0)
  then show ?thesis
    by (simp add: write_config_def sizeof_range_config_def)
qed

theorem X4_witness:
  "(2 :: u16) \<noteq> 0
   \<and> write_config (initial_globals 100 100)
        (bytes_of_config \<lparr>sample_interval_ms = 50, notify_interval_ms = 50,
                           max_range_mm = 800, min_range_mm = 100\<rparr>) 8 2 0
     = (Inl BT_ATT_ERR_INVALID_OFFSET, initial_globals 100 100, [])"
proof -
  have h: "(2 :: u16) \<noteq> 0" by simp
  show ?thesis
    using h
      X4_full_length_at_offset_rejected
        [OF h, where g = "initial_globals 100 100" and flags = 0
          and buf = "bytes_of_config \<lparr>sample_interval_ms = 50, notify_interval_ms = 50,
                           max_range_mm = 800, min_range_mm = 100\<rparr>"]
    by simp
qed

end
